theory Spec2Isabelle
  imports Main "HOL-Library.Sublist"
begin

section \<open>Data model\<close>

text \<open>
  The development embeds \<^verbatim>\<open>src/service/xhr-impl.js\<close>: the class \<^verbatim>\<open>Xhr\<close> with its
  constructor and the methods \<^verbatim>\<open>fetch_\<close>, \<^verbatim>\<open>fetchAmpCors_\<close>, \<^verbatim>\<open>fetchJson\<close>,
  \<^verbatim>\<open>fetchText\<close>, \<^verbatim>\<open>fetch\<close>, \<^verbatim>\<open>sendSignal\<close> and \<^verbatim>\<open>getCorsUrl\<close>.
  A name of the source that ends in an underscore carries the suffix \<open>priv\<close> here
  (\<^verbatim>\<open>fetch_\<close> is \<open>fetch_priv\<close>), because a HOL name cannot end in an underscore.
\<close>

type_synonym form_data = "(string \<times> string) list"

text \<open>
  What \<^verbatim>\<open>init.body\<close> can hold: an opaque payload, a native \<^verbatim>\<open>FormData\<close>, or the
  wrapper object of \<^verbatim>\<open>../form-data-wrapper\<close> around one.
\<close>

datatype body_value =
    OpaqueBody string
  | NativeFormData form_data
  | FormDataWrapper form_data

text \<open>
  \<^verbatim>\<open>FetchInitDef\<close>: the request configuration object. A field that is absent
  (\<^verbatim>\<open>undefined\<close>) is \<open>None\<close>.
\<close>

record fetch_init =
  body :: "body_value option"
  responseType :: "string option"
  http_method :: "string option"
  headers :: "(string \<times> string) list"
  credentials :: "string option"
  ampCors :: "bool option"

text \<open>The object literal \<^verbatim>\<open>{}\<close>, the default of \<^verbatim>\<open>fetchAmpCors_\<close>'s second parameter.\<close>

definition empty_init :: fetch_init where
  "empty_init =
     \<lparr>body = None, responseType = None, http_method = None, headers = [],
      credentials = None, ampCors = None\<rparr>"

record response =
  status :: nat
  response_headers :: "(string \<times> string) list"
  response_body :: string

text \<open>
  What a promise can be rejected with, or a call can throw: \<^verbatim>\<open>undefined\<close>
  (\<open>NoReason\<close>) or an error object with its class and its \<^verbatim>\<open>message\<close>. The classes
  are the taxonomy of the specification; \<open>Expected tag\<close> is an error made by
  \<^verbatim>\<open>user().createExpectedError(tag, ...)\<close>.
\<close>

datatype error_class =
    TransportFailure
  | InvalidConfiguration
  | CorsVerificationFailed
  | HttpError response
  | Expected string

datatype reason = NoReason | Err error_class string

text \<open>The expression \<^verbatim>\<open>reason && reason.message\<close>: a falsy reason is passed on as it is.\<close>

fun reason_and_message :: "reason \<Rightarrow> string option" where
  "reason_and_message NoReason = None"
| "reason_and_message (Err k m) = Some m"

text \<open>
  The value of a call that returns a promise: the promise is fulfilled, rejected or
  never settles (\<open>Pending\<close>), or the call itself throws before it returns a promise
  (\<open>Thrown\<close>).
\<close>

datatype 'a outcome = Fulfilled 'a | Rejected reason | Pending | Thrown reason

text \<open>
  A callback of \<^verbatim>\<open>then\<close> may return a value, return a promise or throw; the promise
  that \<^verbatim>\<open>then\<close> returns adopts the first two and is rejected by the third.
\<close>

fun settle :: "'a outcome \<Rightarrow> 'a outcome" where
  "settle (Thrown e) = Rejected e"
| "settle p = p"



datatype ampdoc = AmpDoc string

text \<open>
  The window: \<open>native_fetch\<close> is \<^verbatim>\<open>win.fetch\<close>, absent in an environment without a
  native transport; \<open>location_origin\<close> is the origin of \<^verbatim>\<open>win.location\<close>.
\<close>

record window =
  location_origin :: string
  native_fetch :: "(string \<Rightarrow> fetch_init \<Rightarrow> response outcome) option"

record ampdoc_service =
  isSingleDoc :: bool
  getAmpDoc :: ampdoc

record url_location =
  origin :: string

text \<open>
  The functions that \<^verbatim>\<open>xhr-impl.js\<close> imports from \<^verbatim>\<open>../utils/xhr-utils\<close>,
  \<^verbatim>\<open>../url\<close>, \<^verbatim>\<open>../services\<close> and \<^verbatim>\<open>../log\<close>. Their code is not part of the file, so
  every function of the model takes them as a parameter. A synchronous helper of
  \<^verbatim>\<open>xhr-utils\<close> returns its value (\<open>Inr\<close>) or throws (\<open>Inl\<close>); one whose result
  is used as a promise returns an \<open>outcome\<close>. They are functions of their arguments:
  a collaborator that changes the \<^verbatim>\<open>init\<close> object behind the caller's back is outside
  the model.
\<close>

record collab =
  ampdocServiceFor :: "window \<Rightarrow> ampdoc_service"
  setupInit :: "fetch_init option \<Rightarrow> string option \<Rightarrow> reason + fetch_init"
  setupJsonFetchInit :: "fetch_init option \<Rightarrow> reason + fetch_init"
  setupInput :: "window \<Rightarrow> string \<Rightarrow> fetch_init \<Rightarrow> reason + string"
  setupAMPCors :: "window \<Rightarrow> string \<Rightarrow> fetch_init \<Rightarrow> reason + fetch_init"
  getViewerInterceptResponse ::
    "window \<Rightarrow> ampdoc option \<Rightarrow> string \<Rightarrow> fetch_init \<Rightarrow> response option outcome"
  fetchPolyfill :: "string \<Rightarrow> fetch_init \<Rightarrow> response outcome"
  verifyAmpCORSHeaders :: "window \<Rightarrow> response \<Rightarrow> fetch_init \<Rightarrow> response outcome"
  assertSuccess :: "response \<Rightarrow> response outcome"
  parseUrlDeprecated :: "string \<Rightarrow> url_location"
  url_getCorsUrl :: "window \<Rightarrow> string \<Rightarrow> string"
  createExpectedError :: "string \<Rightarrow> string \<Rightarrow> string option \<Rightarrow> reason"

text \<open>The calls to collaborators that a run makes, in their order.\<close>

datatype event =
    CallIsSingleDoc
  | CallGetAmpDoc
  | CallIntercept "ampdoc option" string fetch_init
  | CallFetchPolyfill string fetch_init
  | CallNativeFetch string fetch_init
  | CallVerify response fetch_init
  | CallAssertSuccess response
  | CallCreateExpectedError string string "string option"

section \<open>The class Xhr\<close>

record xhr =
  win :: window
  ampdocSingle_priv :: "ampdoc option"

text \<open>
  The constructor: \<^verbatim>\<open>ampdocService.isSingleDoc() ? ampdocService.getAmpDoc() : null\<close>.
\<close>

definition Xhr :: "collab \<Rightarrow> window \<Rightarrow> xhr \<times> event list" where
  "Xhr c w =
     (let ampdocService = ampdocServiceFor c w in
      if isSingleDoc ampdocService
      then (\<lparr>win = w, ampdocSingle_priv = Some (getAmpDoc ampdocService)\<rparr>,
            [CallIsSingleDoc, CallGetAmpDoc])
      else (\<lparr>win = w, ampdocSingle_priv = None\<rparr>, [CallIsSingleDoc]))"

text \<open>\<^verbatim>\<open>isFormDataWrapper(init.body)\<close> and the wrapper's method \<^verbatim>\<open>getFormData()\<close>.\<close>

fun isFormDataWrapper :: "body_value option \<Rightarrow> bool" where
  "isFormDataWrapper (Some (FormDataWrapper fd)) = True"
| "isFormDataWrapper b = False"

fun getFormData :: "body_value \<Rightarrow> body_value" where
  "getFormData (FormDataWrapper fd) = NativeFormData fd"
| "getFormData b = b"

text \<open>
  Lines 90 to 92 of the source, the assignment to \<^verbatim>\<open>init.body\<close>:
  \<^verbatim>\<open>if (isFormDataWrapper(init.body)) { init.body = init.body.getFormData(); }\<close>
\<close>

definition unwrap_body :: "fetch_init \<Rightarrow> fetch_init" where
  "unwrap_body init =
     (if isFormDataWrapper (body init)
      then init\<lparr>body := map_option getFormData (body init)\<rparr>
      else init)"

text \<open>
  \<^verbatim>\<open>fetch_(input, init)\<close>. The result is the promise's outcome, the \<^verbatim>\<open>init\<close> object
  as the call leaves it (the source assigns \<^verbatim>\<open>init.body\<close> in place) and the calls made.
  \<^verbatim>\<open>arguments\<close> inside the arrow function are those of \<^verbatim>\<open>fetch_\<close>, so the transport
  of the last line receives \<^verbatim>\<open>input\<close> and the same, updated, \<^verbatim>\<open>init\<close> object.
\<close>

definition fetch_priv ::
  "collab \<Rightarrow> xhr \<Rightarrow> string \<Rightarrow> fetch_init \<Rightarrow> response outcome \<times> fetch_init \<times> event list"
where
  "fetch_priv c self input init =
     (let asked = CallIntercept (ampdocSingle_priv self) input init in
      case getViewerInterceptResponse c (win self) (ampdocSingle_priv self) input init of
        Thrown e \<Rightarrow> (Thrown e, init, [asked])
      | Pending \<Rightarrow> (Pending, init, [asked])
      | Rejected e \<Rightarrow> (Rejected e, init, [asked])
      | Fulfilled (Some interceptorResponse) \<Rightarrow>
          (Fulfilled interceptorResponse, init, [asked])
      | Fulfilled None \<Rightarrow>
          (let init' = unwrap_body init in
           if responseType init' = Some ''document''
           then (settle (fetchPolyfill c input init'), init',
                 [asked, CallFetchPolyfill input init'])
           else
             (case native_fetch (win self) of
                Some native \<Rightarrow>
                  (settle (native input init'), init', [asked, CallNativeFetch input init'])
              | None \<Rightarrow>
                  (settle (fetchPolyfill c input init'), init',
                   [asked, CallFetchPolyfill input init']))))"

text \<open>
  \<^verbatim>\<open>fetchAmpCors_(input, init = {})\<close>; \<open>default_init\<close> is the default value of
  the parameter, used when the argument is \<^verbatim>\<open>undefined\<close>. The two-argument \<^verbatim>\<open>then\<close> runs the first
  callback on a fulfilled \<^verbatim>\<open>fetch_\<close> and the second on a rejected one; the second
  callback does not see what the first one throws.
\<close>

definition default_init :: "fetch_init option \<Rightarrow> fetch_init" where
  "default_init opt_init = (case opt_init of None \<Rightarrow> empty_init | Some i \<Rightarrow> i)"

definition fetchAmpCors_priv ::
  "collab \<Rightarrow> xhr \<Rightarrow> string \<Rightarrow> fetch_init option \<Rightarrow> response outcome \<times> event list"
where
  "fetchAmpCors_priv c self input0 opt_init =
     (let init0 = default_init opt_init in
      case setupInput c (win self) input0 init0 of
        Inl e \<Rightarrow> (Thrown e, [])
      | Inr input \<Rightarrow>
          (case setupAMPCors c (win self) input init0 of
             Inl e \<Rightarrow> (Thrown e, [])
           | Inr init1 \<Rightarrow>
               (case fetch_priv c self input init1 of
                  (Fulfilled response, init, calls) \<Rightarrow>
                    (settle (verifyAmpCORSHeaders c (win self) response init),
                     calls @ [CallVerify response init])
                | (Rejected reason, init, calls) \<Rightarrow>
                    (let targetOrigin = origin (parseUrlDeprecated c input);
                         text = ''Failed fetching'' @ '' ('' @ targetOrigin @ ''/...):''
                     in
                     (Rejected (createExpectedError c ''XHR'' text (reason_and_message reason)),
                      calls @ [CallCreateExpectedError ''XHR'' text (reason_and_message reason)]))
                | (Pending, init, calls) \<Rightarrow> (Pending, calls)
                | (Thrown e, init, calls) \<Rightarrow> (Thrown e, calls))))"

text \<open>\<^verbatim>\<open>.then(response => assertSuccess(response))\<close>, as \<^verbatim>\<open>fetch\<close> and \<^verbatim>\<open>sendSignal\<close> end.\<close>

definition then_assertSuccess ::
  "collab \<Rightarrow> response outcome \<times> event list \<Rightarrow> response outcome \<times> event list"
where
  "then_assertSuccess c p =
     (case p of
        (Fulfilled response, calls) \<Rightarrow>
          (settle (assertSuccess c response), calls @ [CallAssertSuccess response])
      | (Rejected e, calls) \<Rightarrow> (Rejected e, calls)
      | (Pending, calls) \<Rightarrow> (Pending, calls)
      | (Thrown e, calls) \<Rightarrow> (Thrown e, calls))"

text \<open>\<^verbatim>\<open>fetch(input, opt_init)\<close>.\<close>

definition fetch ::
  "collab \<Rightarrow> xhr \<Rightarrow> string \<Rightarrow> fetch_init option \<Rightarrow> response outcome \<times> event list"
where
  "fetch c self input opt_init =
     (case setupInit c opt_init None of
        Inl e \<Rightarrow> (Thrown e, [])
      | Inr init \<Rightarrow> then_assertSuccess c (fetchAmpCors_priv c self input (Some init)))"

text \<open>
  \<^verbatim>\<open>fetchJson(input, opt_init, opt_allowFailure)\<close>: the body of the method does not
  mention its third parameter.
\<close>

definition fetchJson ::
  "collab \<Rightarrow> xhr \<Rightarrow> string \<Rightarrow> fetch_init option \<Rightarrow> bool option \<Rightarrow>
   response outcome \<times> event list"
where
  "fetchJson c self input opt_init opt_allowFailure =
     (case setupJsonFetchInit c opt_init of
        Inl e \<Rightarrow> (Thrown e, [])
      | Inr init \<Rightarrow> fetch c self input (Some init))"

text \<open>\<^verbatim>\<open>fetchText(input, opt_init)\<close>.\<close>

definition fetchText ::
  "collab \<Rightarrow> xhr \<Rightarrow> string \<Rightarrow> fetch_init option \<Rightarrow> response outcome \<times> event list"
where
  "fetchText c self input opt_init =
     (case setupInit c opt_init (Some ''text/plain'') of
        Inl e \<Rightarrow> (Thrown e, [])
      | Inr init \<Rightarrow> fetch c self input (Some init))"

text \<open>\<^verbatim>\<open>sendSignal(input, opt_init)\<close>.\<close>

definition sendSignal ::
  "collab \<Rightarrow> xhr \<Rightarrow> string \<Rightarrow> fetch_init option \<Rightarrow> response outcome \<times> event list"
where
  "sendSignal c self input opt_init =
     then_assertSuccess c (fetchAmpCors_priv c self input opt_init)"

text \<open>\<^verbatim>\<open>getCorsUrl(win, url)\<close>.\<close>

definition getCorsUrl :: "collab \<Rightarrow> xhr \<Rightarrow> window \<Rightarrow> string \<Rightarrow> string" where
  "getCorsUrl c self w url = url_getCorsUrl c w url"

section \<open>The imported helpers\<close>

text \<open>
  The helpers of \<^verbatim>\<open>../utils/xhr-utils\<close>, \<^verbatim>\<open>../url\<close> and \<^verbatim>\<open>../log\<close> are not in
  \<^verbatim>\<open>xhr-impl.js\<close>. The general theorems below hold for every collaborator; the
  definitions of this section give one set of them, used where a theorem is evaluated
  at a concrete request.
\<close>

text \<open>
  Modelled from the spec: \<^verbatim>\<open>parseUrlDeprecated\<close> of \<^verbatim>\<open>../url\<close>, of which only
  the \<^verbatim>\<open>origin\<close> is used (``URL utilities: parse(url) -> {origin, ...}''). The origin
  is ``scheme+host+port'': for an absolute URL of the form
  \<^verbatim>\<open>scheme://[userinfo@]host[:port][/path][?query][#fragment]\<close> it is the scheme and
  the host in lower case and the port, without the user information and without a
  port that is the default of the scheme.
\<close>

definition url_delimiter :: "char \<Rightarrow> bool" where
  "url_delimiter ch = (ch = CHR ''/'' \<or> ch = CHR ''?'' \<or> ch = CHR ''#'')"

definition to_lower :: "char \<Rightarrow> char" where
  "to_lower ch =
     (case map_of (zip ''ABCDEFGHIJKLMNOPQRSTUVWXYZ'' ''abcdefghijklmnopqrstuvwxyz'') ch of
        None \<Rightarrow> ch
      | Some l \<Rightarrow> l)"

definition default_port :: "string \<Rightarrow> string" where
  "default_port scheme =
     (if scheme = ''http'' \<or> scheme = ''ws'' then ''80''
      else if scheme = ''https'' \<or> scheme = ''wss'' then ''443''
      else if scheme = ''ftp'' then ''21''
      else [])"

definition url_origin :: "string \<Rightarrow> string" where
  "url_origin url =
     (let scheme = map to_lower (takeWhile (\<lambda>ch. ch \<noteq> CHR '':'' \<and> \<not> url_delimiter ch) url);
          rest = drop (length scheme + 3) url;
          authority = takeWhile (\<lambda>ch. \<not> url_delimiter ch) rest;
          hostport = rev (takeWhile (\<lambda>ch. ch \<noteq> CHR ''@'') (rev authority));
          host = (if take 1 hostport = ''[''
                  then takeWhile (\<lambda>ch. ch \<noteq> CHR '']'') hostport @ '']''
                  else takeWhile (\<lambda>ch. ch \<noteq> CHR '':'') hostport);
          port = drop (length host + 1) hostport
      in scheme @ ''://'' @ map to_lower host
           @ (if port = [] \<or> port = default_port scheme then [] else '':'' @ port))"

definition spec_parseUrlDeprecated :: "string \<Rightarrow> url_location" where
  "spec_parseUrlDeprecated url = \<lparr>origin = url_origin url\<rparr>"

text \<open>
  Modelled from the spec: \<^verbatim>\<open>getCorsUrl\<close> of \<^verbatim>\<open>../url\<close>, the Origin Tagger of
  section 4.2: it ``appends a single query parameter carrying the OriginToken to the
  request URL, unless the URL already targets the same origin as the caller''. The
  parameter's name is the one the source's comment gives.
\<close>

definition spec_getCorsUrl :: "window \<Rightarrow> string \<Rightarrow> string" where
  "spec_getCorsUrl w url =
     (if url_origin url = location_origin w then url
      else url @ (if CHR ''?'' \<in> set url then ''&'' else ''?'')
             @ ''__amp_source_origin='' @ location_origin w)"

text \<open>
  Modelled from the spec: \<^verbatim>\<open>setupInput\<close> of \<^verbatim>\<open>../utils/xhr-utils\<close>: ``When
  corsMode = false, tagging is skipped entirely''; otherwise the URL is tagged.
\<close>

definition spec_setupInput :: "window \<Rightarrow> string \<Rightarrow> fetch_init \<Rightarrow> reason + string" where
  "spec_setupInput w input init =
     Inr (if ampCors init = Some False then input else spec_getCorsUrl w input)"

text \<open>
  Modelled from the spec: \<^verbatim>\<open>setupAMPCors\<close> of \<^verbatim>\<open>../utils/xhr-utils\<close>. Section 4.2
  gives the Origin Tagger no effect ``beyond returning a new Request with a rewritten
  URL'', so the configuration is returned as it is.
\<close>

definition spec_setupAMPCors :: "window \<Rightarrow> string \<Rightarrow> fetch_init \<Rightarrow> reason + fetch_init" where
  "spec_setupAMPCors w input init = Inr init"

text \<open>
  Modelled from the spec: \<^verbatim>\<open>setupInit\<close> of \<^verbatim>\<open>../utils/xhr-utils\<close>, the Request
  Normalizer of section 4.1: the method defaults to \<^verbatim>\<open>GET\<close>, a text-oriented fetch
  forces its \<^verbatim>\<open>Accept\<close> header, and a \<^verbatim>\<open>document\<close> response mode with a
  body-bearing method fails with \<^verbatim>\<open>InvalidConfiguration\<close>. The default of the
  credentials mode depends on the URL, which \<^verbatim>\<open>setupInit\<close> is not given; the field
  is left as supplied.
\<close>

definition set_header :: "string \<Rightarrow> string \<Rightarrow> (string \<times> string) list \<Rightarrow> (string \<times> string) list" where
  "set_header name v hs = (name, v) # filter (\<lambda>h. fst h \<noteq> name) hs"

definition body_bearing :: "string \<Rightarrow> bool" where
  "body_bearing m = (m = ''POST'' \<or> m = ''PUT'' \<or> m = ''PATCH'')"

definition spec_setupInit :: "fetch_init option \<Rightarrow> string option \<Rightarrow> reason + fetch_init" where
  "spec_setupInit opt_init opt_accept =
     (let init0 = (case opt_init of None \<Rightarrow> empty_init | Some i \<Rightarrow> i);
          m = (case http_method init0 of None \<Rightarrow> ''GET'' | Some v \<Rightarrow> v);
          init1 = init0\<lparr>http_method := Some m\<rparr>;
          init2 = (case opt_accept of
                     None \<Rightarrow> init1
                   | Some a \<Rightarrow> init1\<lparr>headers := set_header ''Accept'' a (headers init1)\<rparr>)
      in if responseType init2 = Some ''document'' \<and> body_bearing m
         then Inl (Err InvalidConfiguration ''document response with a request body'')
         else Inr init2)"

text \<open>
  Modelled from the spec: \<^verbatim>\<open>setupJsonFetchInit\<close> of \<^verbatim>\<open>../utils/xhr-utils\<close>: a
  JSON-oriented fetch forces \<^verbatim>\<open>Accept: application/json\<close> and, if a body is present,
  sets \<^verbatim>\<open>Content-Type: application/json\<close> unless already set. An opaque body stands
  for its serialised text.
\<close>

definition spec_setupJsonFetchInit :: "fetch_init option \<Rightarrow> reason + fetch_init" where
  "spec_setupJsonFetchInit opt_init =
     (case spec_setupInit opt_init (Some ''application/json'') of
        Inl e \<Rightarrow> Inl e
      | Inr init \<Rightarrow>
          (if body init \<noteq> None \<and> map_of (headers init) ''Content-Type'' = None
           then Inr (init\<lparr>headers := headers init @ [(''Content-Type'', ''application/json'')]\<rparr>)
           else Inr init))"

text \<open>
  Modelled from the spec: \<^verbatim>\<open>getViewerInterceptResponse\<close> of \<^verbatim>\<open>../utils/xhr-utils\<close>:
  the interception collaborator is ``consulted only when the environment is a single
  addressable document'' and resolves to a response or to nothing. The viewer is a
  parameter.
\<close>

definition spec_getViewerInterceptResponse ::
  "(ampdoc \<Rightarrow> string \<Rightarrow> fetch_init \<Rightarrow> response option outcome) \<Rightarrow>
   window \<Rightarrow> ampdoc option \<Rightarrow> string \<Rightarrow> fetch_init \<Rightarrow> response option outcome"
where
  "spec_getViewerInterceptResponse viewer w ampdocSingle input init =
     (case ampdocSingle of
        None \<Rightarrow> Fulfilled None
      | Some doc \<Rightarrow> viewer doc input init)"

text \<open>
  Modelled from the spec: \<^verbatim>\<open>verifyAmpCORSHeaders\<close> of \<^verbatim>\<open>../utils/xhr-utils\<close>, the
  origin check of section 4.4: only if the CORS mode is on, ``the response must carry
  a header asserting that the responding origin explicitly allows the calling
  OriginToken as a source. Absence or mismatch fails with a CorsVerificationFailed
  error''. The header's name is the one the source's comment gives.
\<close>

definition allow_source_origin_header :: string where
  "allow_source_origin_header = ''AMP-Access-Control-Allow-Source-Origin''"

definition spec_verifyAmpCORSHeaders :: "window \<Rightarrow> response \<Rightarrow> fetch_init \<Rightarrow> response outcome" where
  "spec_verifyAmpCORSHeaders w response init =
     (if ampCors init = Some False then Fulfilled response
      else
        (case map_of (response_headers response) allow_source_origin_header of
           None \<Rightarrow> Thrown (Err CorsVerificationFailed ''missing source origin header'')
         | Some v \<Rightarrow>
             if v = location_origin w then Fulfilled response
             else Thrown (Err CorsVerificationFailed ''source origin not allowed'')))"

text \<open>
  Modelled from the spec: \<^verbatim>\<open>assertSuccess\<close> of \<^verbatim>\<open>../utils/xhr-utils\<close>, the status
  check of section 4.4: ``the response's status must fall in the conventional success
  range; otherwise fails with an HttpError that carries the response''.
\<close>

definition spec_assertSuccess :: "response \<Rightarrow> response outcome" where
  "spec_assertSuccess response =
     (if 200 \<le> status response \<and> status response < 300 then Fulfilled response
      else Rejected (Err (HttpError response) ''HTTP error''))"

text \<open>
  Modelled from the spec: \<^verbatim>\<open>user().createExpectedError\<close> of \<^verbatim>\<open>../log\<close>, the error
  sink that ``accepts (category, message, detail)'' and makes the expected,
  user-facing error: the category is kept as the error's class, the message and the
  detail as its text.
\<close>

definition spec_createExpectedError :: "string \<Rightarrow> string \<Rightarrow> string option \<Rightarrow> reason" where
  "spec_createExpectedError tag msg detail =
     Err (Expected tag) (case detail of None \<Rightarrow> msg | Some d \<Rightarrow> msg @ '' '' @ d)"

text \<open>
  The helpers above as one set of collaborators, for a given document service, viewer
  and fallback transport.
\<close>

definition spec_collab ::
  "ampdoc_service \<Rightarrow> (ampdoc \<Rightarrow> string \<Rightarrow> fetch_init \<Rightarrow> response option outcome) \<Rightarrow>
   (string \<Rightarrow> fetch_init \<Rightarrow> response outcome) \<Rightarrow> collab"
where
  "spec_collab service viewer polyfill =
     \<lparr>ampdocServiceFor = (\<lambda>w. service),
      setupInit = spec_setupInit,
      setupJsonFetchInit = spec_setupJsonFetchInit,
      setupInput = spec_setupInput,
      setupAMPCors = spec_setupAMPCors,
      getViewerInterceptResponse = spec_getViewerInterceptResponse viewer,
      fetchPolyfill = polyfill,
      verifyAmpCORSHeaders = spec_verifyAmpCORSHeaders,
      assertSuccess = spec_assertSuccess,
      parseUrlDeprecated = spec_parseUrlDeprecated,
      url_getCorsUrl = spec_getCorsUrl,
      createExpectedError = spec_createExpectedError\<rparr>"

section \<open>Sample requests\<close>

text \<open>
  A page served from \<^verbatim>\<open>https://cache.example\<close> that fetches from
  \<^verbatim>\<open>https://example.com\<close>, with transports and viewers that answer every request the
  same way.
\<close>

definition single_doc_service :: ampdoc_service where
  "single_doc_service = \<lparr>isSingleDoc = True, getAmpDoc = AmpDoc ''doc''\<rparr>"

definition shadow_doc_service :: ampdoc_service where
  "shadow_doc_service = \<lparr>isSingleDoc = False, getAmpDoc = AmpDoc ''shell''\<rparr>"

definition silent_viewer :: "ampdoc \<Rightarrow> string \<Rightarrow> fetch_init \<Rightarrow> response option outcome" where
  "silent_viewer doc input init = Fulfilled None"

definition answering_viewer ::
  "response \<Rightarrow> ampdoc \<Rightarrow> string \<Rightarrow> fetch_init \<Rightarrow> response option outcome" where
  "answering_viewer r doc input init = Fulfilled (Some r)"

definition responding :: "response \<Rightarrow> string \<Rightarrow> fetch_init \<Rightarrow> response outcome" where
  "responding r input init = Fulfilled r"

definition failing :: "reason \<Rightarrow> string \<Rightarrow> fetch_init \<Rightarrow> response outcome" where
  "failing e input init = Rejected e"

text \<open>A transport whose error message quotes the URL it was asked for.\<close>

definition quoting_transport :: "string \<Rightarrow> fetch_init \<Rightarrow> response outcome" where
  "quoting_transport input init = Rejected (Err TransportFailure (''Failed to load '' @ input))"

definition cache_window :: "(string \<Rightarrow> fetch_init \<Rightarrow> response outcome) option \<Rightarrow> window" where
  "cache_window native = \<lparr>location_origin = ''https://cache.example'', native_fetch = native\<rparr>"

definition data_url :: string where
  "data_url = ''https://example.com/data.json''"

definition tagged_data_url :: string where
  "tagged_data_url = ''https://example.com/data.json?__amp_source_origin=https://cache.example''"

definition allowed_response :: "nat \<Rightarrow> response" where
  "allowed_response code =
     \<lparr>status = code,
      response_headers = [(allow_source_origin_header, ''https://cache.example'')],
      response_body = ''{}''\<rparr>"

definition bare_response :: "nat \<Rightarrow> response" where
  "bare_response code = \<lparr>status = code, response_headers = [], response_body = ''{}''\<rparr>"

definition get_init :: fetch_init where
  "get_init = empty_init\<lparr>http_method := Some ''GET''\<rparr>"

definition form_init :: fetch_init where
  "form_init =
     empty_init\<lparr>http_method := Some ''POST'',
                body := Some (FormDataWrapper [(''name'', ''value'')])\<rparr>"

definition document_init :: fetch_init where
  "document_init = get_init\<lparr>responseType := Some ''document''\<rparr>"

definition sample_collab :: "(string \<Rightarrow> fetch_init \<Rightarrow> response outcome) \<Rightarrow> collab" where
  "sample_collab polyfill = spec_collab single_doc_service silent_viewer polyfill"

definition intercepting_collab ::
  "response \<Rightarrow> (string \<Rightarrow> fetch_init \<Rightarrow> response outcome) \<Rightarrow> collab" where
  "intercepting_collab r polyfill = spec_collab single_doc_service (answering_viewer r) polyfill"

definition shadow_collab ::
  "response \<Rightarrow> (string \<Rightarrow> fetch_init \<Rightarrow> response outcome) \<Rightarrow> collab" where
  "shadow_collab r polyfill = spec_collab shadow_doc_service (answering_viewer r) polyfill"

definition sample_client ::
  "collab \<Rightarrow> (string \<Rightarrow> fetch_init \<Rightarrow> response outcome) option \<Rightarrow> xhr" where
  "sample_client c native = fst (Xhr c (cache_window native))"

definition network_failure :: reason where
  "network_failure = Err TransportFailure ''Network failure''"

section \<open>Properties of a list of calls\<close>

fun is_native_call :: "event \<Rightarrow> bool" where
  "is_native_call (CallNativeFetch u i) = True"
| "is_native_call ev = False"

fun is_polyfill_call :: "event \<Rightarrow> bool" where
  "is_polyfill_call (CallFetchPolyfill u i) = True"
| "is_polyfill_call ev = False"

fun is_verify_call :: "event \<Rightarrow> bool" where
  "is_verify_call (CallVerify r i) = True"
| "is_verify_call ev = False"

fun is_wrap_call :: "event \<Rightarrow> bool" where
  "is_wrap_call (CallCreateExpectedError tag msg detail) = True"
| "is_wrap_call ev = False"

text \<open>
  A call that a method of a client holding the document \<open>d\<close> may make: it is not a
  call to the document service, and if it consults the interception collaborator, it
  does so with \<open>d\<close>.
\<close>

fun consults_only :: "ampdoc option \<Rightarrow> event \<Rightarrow> bool" where
  "consults_only d CallIsSingleDoc = False"
| "consults_only d CallGetAmpDoc = False"
| "consults_only d (CallIntercept d' u i) = (d' = d)"
| "consults_only d ev = True"

section \<open>Evaluation and auxiliary facts\<close>

lemmas helper_defs =
  spec_collab_def spec_setupInit_def spec_setupJsonFetchInit_def spec_setupInput_def
  spec_setupAMPCors_def spec_getViewerInterceptResponse_def spec_verifyAmpCORSHeaders_def
  spec_assertSuccess_def spec_createExpectedError_def spec_parseUrlDeprecated_def
  spec_getCorsUrl_def url_origin_def url_delimiter_def to_lower_def default_port_def
  set_header_def body_bearing_def
  allow_source_origin_header_def

lemmas sample_defs =
  single_doc_service_def shadow_doc_service_def silent_viewer_def answering_viewer_def
  responding_def failing_def quoting_transport_def cache_window_def data_url_def tagged_data_url_def
  allowed_response_def bare_response_def get_init_def form_init_def document_init_def
  empty_init_def default_init_def sample_collab_def intercepting_collab_def shadow_collab_def
  sample_client_def network_failure_def Xhr_def

lemmas method_defs =
  fetch_priv_def unwrap_body_def fetchAmpCors_priv_def then_assertSuccess_def fetch_def
  fetchJson_def fetchText_def sendSignal_def

lemma responseType_unwrap_body: "responseType (unwrap_body init) = responseType init"
  by (simp add: unwrap_body_def)

lemma fetch_priv_no_wrap:
  "filter is_wrap_call (snd (snd (fetch_priv c self input init))) = []"
  by (simp add: fetch_priv_def Let_def split: outcome.splits option.splits)

lemma fetch_priv_calls:
  "list_all (consults_only (ampdocSingle_priv self)) (snd (snd (fetch_priv c self input init)))"
  by (simp add: fetch_priv_def Let_def split: outcome.splits option.splits)

lemma fetchAmpCors_priv_calls:
  "list_all (consults_only (ampdocSingle_priv self))
     (snd (fetchAmpCors_priv c self input0 opt_init))"
proof -
  define init0 where "init0 = default_init opt_init"
  show ?thesis
  proof (cases "setupInput c (win self) input0 init0")
    case (Inl e)
    then show ?thesis by (simp add: fetchAmpCors_priv_def Let_def init0_def)
  next
    case input: (Inr input)
    show ?thesis
    proof (cases "setupAMPCors c (win self) input init0")
      case (Inl e)
      with input show ?thesis by (simp add: fetchAmpCors_priv_def Let_def init0_def)
    next
      case init1: (Inr init1)
      obtain p init calls where run: "fetch_priv c self input init1 = (p, init, calls)"
        by (cases "fetch_priv c self input init1") auto
      have "list_all (consults_only (ampdocSingle_priv self)) calls"
        using fetch_priv_calls [of self c input init1] run by simp
      with input init1 run show ?thesis
        by (cases p) (simp_all add: fetchAmpCors_priv_def Let_def init0_def)
    qed
  qed
qed

lemma then_assertSuccess_calls:
  "list_all (consults_only d) (snd p) \<Longrightarrow>
   list_all (consults_only d) (snd (then_assertSuccess c p))"
  by (auto simp: then_assertSuccess_def split: prod.splits outcome.splits)

lemma fetch_calls:
  "list_all (consults_only (ampdocSingle_priv self)) (snd (fetch c self input opt_init))"
  by (simp add: fetch_def then_assertSuccess_calls fetchAmpCors_priv_calls split: sum.splits)

lemma sendSignal_calls:
  "list_all (consults_only (ampdocSingle_priv self)) (snd (sendSignal c self input opt_init))"
  by (simp add: sendSignal_def then_assertSuccess_calls fetchAmpCors_priv_calls)

lemma fetchJson_calls:
  "list_all (consults_only (ampdocSingle_priv self)) (snd (fetchJson c self input opt_init a))"
  by (simp add: fetchJson_def fetch_calls split: sum.splits)

lemma fetchText_calls:
  "list_all (consults_only (ampdocSingle_priv self)) (snd (fetchText c self input opt_init))"
  by (simp add: fetchText_def fetch_calls split: sum.splits)

text \<open>
  The origin that \<open>url_origin\<close> extracts holds no query string, so the text that
  \<^verbatim>\<open>fetchAmpCors_\<close> builds from it has no \<^verbatim>\<open>?\<close> in it.
\<close>

lemma to_lower_no_query: "to_lower ch = CHR ''?'' \<Longrightarrow> ch = CHR ''?''"
  by (simp add: to_lower_def split: option.splits if_splits)

lemma map_to_lower_no_query:
  "CHR ''?'' \<notin> set ys \<Longrightarrow> CHR ''?'' \<notin> set (map to_lower ys)"
proof
  assume free: "CHR ''?'' \<notin> set ys" and "CHR ''?'' \<in> set (map to_lower ys)"
  then obtain x where "x \<in> set ys" and "to_lower x = CHR ''?''"
    by auto
  with free show False
    using to_lower_no_query [of x] by simp
qed

lemma url_origin_has_no_query: "CHR ''?'' \<notin> set (url_origin url)"
proof -
  define scheme where
    "scheme = map to_lower (takeWhile (\<lambda>ch. ch \<noteq> CHR '':'' \<and> \<not> url_delimiter ch) url)"
  define authority where
    "authority = takeWhile (\<lambda>ch. \<not> url_delimiter ch) (drop (length scheme + 3) url)"
  define hostport where
    "hostport = rev (takeWhile (\<lambda>ch. ch \<noteq> CHR ''@'') (rev authority))"
  define host where
    "host = (if take 1 hostport = ''[''
             then takeWhile (\<lambda>ch. ch \<noteq> CHR '']'') hostport @ '']''
             else takeWhile (\<lambda>ch. ch \<noteq> CHR '':'') hostport)"
  define port where "port = drop (length host + 1) hostport"
  have s: "CHR ''?'' \<notin> set scheme"
    unfolding scheme_def
    by (rule map_to_lower_no_query) (auto simp: url_delimiter_def dest: set_takeWhileD)
  have a: "CHR ''?'' \<notin> set authority"
    unfolding authority_def by (auto simp: url_delimiter_def dest: set_takeWhileD)
  have hp: "CHR ''?'' \<notin> set hostport"
    unfolding hostport_def using a by (auto dest: set_takeWhileD)
  have "CHR ''?'' \<notin> set host"
    unfolding host_def using hp by (auto dest: set_takeWhileD)
  then have h: "CHR ''?'' \<notin> set (map to_lower host)"
    by (rule map_to_lower_no_query)
  have p: "CHR ''?'' \<notin> set port"
    unfolding port_def using hp by (auto dest: in_set_dropD)
  have "url_origin url =
          scheme @ ''://'' @ map to_lower host
            @ (if port = [] \<or> port = default_port scheme then [] else '':'' @ port)"
    by (simp add: url_origin_def Let_def scheme_def authority_def hostport_def host_def
        port_def)
  with s h p show ?thesis
    by simp
qed

text \<open>The third parameter of \<^verbatim>\<open>fetchJson\<close> has no effect on what the method does.\<close>

lemma fetchJson_ignores_allowFailure:
  "fetchJson c self input opt_init a = fetchJson c self input opt_init b"
  by (simp add: fetchJson_def)

section \<open>Transport selection\<close>

text \<open>
  C3. A request whose \<^verbatim>\<open>responseType\<close> is \<^verbatim>\<open>'document'\<close> and for which the interceptor
  resolves to no response is sent through the fallback transport \<^verbatim>\<open>fetchPolyfill\<close>,
  with the unwrapped \<^verbatim>\<open>init\<close>; the native transport is not called, whatever
  \<^verbatim>\<open>win.fetch\<close> is.
\<close>

theorem document_request_uses_fallback:
  assumes "getViewerInterceptResponse c (win self) (ampdocSingle_priv self) input init
             = Fulfilled None"
    and "responseType init = Some ''document''"
  shows "fetch_priv c self input init =
           (settle (fetchPolyfill c input (unwrap_body init)), unwrap_body init,
            [CallIntercept (ampdocSingle_priv self) input init,
             CallFetchPolyfill input (unwrap_body init)])
         \<and> list_ex is_polyfill_call (snd (snd (fetch_priv c self input init)))
         \<and> \<not> list_ex is_native_call (snd (snd (fetch_priv c self input init)))"
  using assms by (simp add: fetch_priv_def Let_def responseType_unwrap_body)

theorem document_request_uses_fallback_witness:
  "getViewerInterceptResponse (sample_collab (responding (allowed_response 200)))
     (win (sample_client (sample_collab (responding (allowed_response 200)))
             (Some (failing network_failure))))
     (ampdocSingle_priv (sample_client (sample_collab (responding (allowed_response 200)))
             (Some (failing network_failure))))
     tagged_data_url document_init = Fulfilled None
   \<and> responseType document_init = Some ''document''
   \<and> fetch_priv (sample_collab (responding (allowed_response 200)))
        (sample_client (sample_collab (responding (allowed_response 200)))
           (Some (failing network_failure)))
        tagged_data_url document_init
      = (Fulfilled (allowed_response 200), document_init,
         [CallIntercept (Some (AmpDoc ''doc'')) tagged_data_url document_init,
          CallFetchPolyfill tagged_data_url document_init])
   \<and> \<not> list_ex is_native_call
        (snd (snd (fetch_priv (sample_collab (responding (allowed_response 200)))
           (sample_client (sample_collab (responding (allowed_response 200)))
              (Some (failing network_failure)))
           tagged_data_url document_init)))"
proof -
  let ?c = "sample_collab (responding (allowed_response 200))"
  let ?x = "sample_client ?c (Some (failing network_failure))"
  have h1: "getViewerInterceptResponse ?c (win ?x) (ampdocSingle_priv ?x)
              tagged_data_url document_init = Fulfilled None"
    by (simp add: helper_defs sample_defs Let_def)
  have h2: "responseType document_init = Some ''document''"
    by (simp add: sample_defs)
  have u: "unwrap_body document_init = document_init"
    by (simp add: unwrap_body_def sample_defs)
  have d: "ampdocSingle_priv ?x = Some (AmpDoc ''doc'')"
    by (simp add: helper_defs sample_defs Let_def)
  have f: "fetchPolyfill ?c tagged_data_url document_init = Fulfilled (allowed_response 200)"
    by (simp add: helper_defs sample_defs)
  from document_request_uses_fallback [OF h1 h2] h1 h2 show ?thesis
    by (simp add: u d f)
qed

text \<open>
  C8. A request for which the interceptor resolves to no response and whose
  \<^verbatim>\<open>responseType\<close> is not \<^verbatim>\<open>'document'\<close> is sent through \<^verbatim>\<open>win.fetch\<close> when the
  window has one, and through \<^verbatim>\<open>fetchPolyfill\<close> when it has none; either way the
  transport is the only one called and receives the unwrapped \<^verbatim>\<open>init\<close>.
\<close>

theorem other_request_prefers_native:
  assumes "getViewerInterceptResponse c (win self) (ampdocSingle_priv self) input init
             = Fulfilled None"
    and "responseType init \<noteq> Some ''document''"
  shows "fetch_priv c self input init =
           (case native_fetch (win self) of
              Some native \<Rightarrow>
                (settle (native input (unwrap_body init)), unwrap_body init,
                 [CallIntercept (ampdocSingle_priv self) input init,
                  CallNativeFetch input (unwrap_body init)])
            | None \<Rightarrow>
                (settle (fetchPolyfill c input (unwrap_body init)), unwrap_body init,
                 [CallIntercept (ampdocSingle_priv self) input init,
                  CallFetchPolyfill input (unwrap_body init)]))"
  using assms
  by (simp add: fetch_priv_def Let_def responseType_unwrap_body split: option.splits)

theorem other_request_prefers_native_witness:
  "responseType get_init \<noteq> Some ''document''
   \<and> fetch_priv (sample_collab (failing network_failure))
        (sample_client (sample_collab (failing network_failure))
           (Some (responding (allowed_response 200))))
        tagged_data_url get_init
      = (Fulfilled (allowed_response 200), get_init,
         [CallIntercept (Some (AmpDoc ''doc'')) tagged_data_url get_init,
          CallNativeFetch tagged_data_url get_init])
   \<and> fetch_priv (sample_collab (responding (allowed_response 200)))
        (sample_client (sample_collab (responding (allowed_response 200))) None)
        tagged_data_url get_init
      = (Fulfilled (allowed_response 200), get_init,
         [CallIntercept (Some (AmpDoc ''doc'')) tagged_data_url get_init,
          CallFetchPolyfill tagged_data_url get_init])"
proof -
  let ?c = "sample_collab (failing network_failure)"
  let ?x = "sample_client ?c (Some (responding (allowed_response 200)))"
  let ?c' = "sample_collab (responding (allowed_response 200))"
  let ?x' = "sample_client ?c' None"
  have h1: "getViewerInterceptResponse ?c (win ?x) (ampdocSingle_priv ?x)
              tagged_data_url get_init = Fulfilled None"
    by (simp add: helper_defs sample_defs Let_def)
  have h1': "getViewerInterceptResponse ?c' (win ?x') (ampdocSingle_priv ?x')
               tagged_data_url get_init = Fulfilled None"
    by (simp add: helper_defs sample_defs Let_def)
  have h2: "responseType get_init \<noteq> Some ''document''"
    by (simp add: sample_defs)
  have u: "unwrap_body get_init = get_init"
    by (simp add: unwrap_body_def sample_defs)
  have d: "ampdocSingle_priv ?x = Some (AmpDoc ''doc'')"
    "ampdocSingle_priv ?x' = Some (AmpDoc ''doc'')"
    by (simp_all add: helper_defs sample_defs Let_def)
  have n: "native_fetch (win ?x) = Some (responding (allowed_response 200))"
    "native_fetch (win ?x') = None"
    by (simp_all add: helper_defs sample_defs Let_def)
  have f: "responding (allowed_response 200) tagged_data_url get_init
             = Fulfilled (allowed_response 200)"
    "fetchPolyfill ?c' tagged_data_url get_init = Fulfilled (allowed_response 200)"
    by (simp_all add: helper_defs sample_defs)
  from other_request_prefers_native [OF h1 h2] other_request_prefers_native [OF h1' h2] h2
  show ?thesis
    by (simp add: u d n f)
qed

text \<open>
  C9. When the interceptor supplies a response, \<^verbatim>\<open>fetch_\<close> returns it at once: the
  only call made is the one to the interceptor, so no transport is called and the
  \<^verbatim>\<open>responseType\<close> branch is not reached, and the \<^verbatim>\<open>init\<close> object is left as it
  was, a form-data wrapper in \<^verbatim>\<open>init.body\<close> included.
\<close>

theorem intercepted_request_short_circuits:
  assumes "getViewerInterceptResponse c (win self) (ampdocSingle_priv self) input init
             = Fulfilled (Some r)"
  shows "fetch_priv c self input init =
           (Fulfilled r, init, [CallIntercept (ampdocSingle_priv self) input init])"
  using assms by (simp add: fetch_priv_def Let_def)

theorem intercepted_request_short_circuits_witness:
  "fetch_priv (intercepting_collab (allowed_response 200) (failing network_failure))
     (sample_client (intercepting_collab (allowed_response 200) (failing network_failure))
        (Some (failing network_failure)))
     tagged_data_url form_init
   = (Fulfilled (allowed_response 200), form_init,
      [CallIntercept (Some (AmpDoc ''doc'')) tagged_data_url form_init])
   \<and> body form_init = Some (FormDataWrapper [(''name'', ''value'')])"
proof -
  let ?c = "intercepting_collab (allowed_response 200) (failing network_failure)"
  let ?x = "sample_client ?c (Some (failing network_failure))"
  have h: "getViewerInterceptResponse ?c (win ?x) (ampdocSingle_priv ?x)
             tagged_data_url form_init = Fulfilled (Some (allowed_response 200))"
    by (simp add: helper_defs sample_defs Let_def)
  have d: "ampdocSingle_priv ?x = Some (AmpDoc ''doc'')"
    by (simp add: helper_defs sample_defs Let_def)
  have b: "body form_init = Some (FormDataWrapper [(''name'', ''value'')])"
    by (simp add: sample_defs)
  from intercepted_request_short_circuits [OF h] b show ?thesis
    by (simp add: d)
qed

section \<open>The init object\<close>

text \<open>
  C5, as the source has it. The claim that \<^verbatim>\<open>fetch_\<close> changes no field of the
  \<^verbatim>\<open>init\<close> object it is handed fails for a body that is a form-data wrapper: on the
  path to a transport, lines 90 to 92 replace it.
\<close>

theorem init_is_immutable_counterexample:
  "fst (snd (fetch_priv (sample_collab (failing network_failure))
               (sample_client (sample_collab (failing network_failure)) None)
               tagged_data_url form_init))
     \<noteq> form_init"
  by (simp add: method_defs helper_defs sample_defs Let_def)

text \<open>
  C5, amended. \<^verbatim>\<open>fetch_\<close> changes no field of \<^verbatim>\<open>init\<close> other than \<^verbatim>\<open>body\<close>, and
  \<^verbatim>\<open>body\<close> only when the interceptor resolves to no response and the body is a
  form-data wrapper, which is then replaced by the native form data it wraps.
\<close>

theorem fetch_priv_changes_wrapped_body_only:
  "fst (snd (fetch_priv c self input init)) =
     init\<lparr>body :=
       (case getViewerInterceptResponse c (win self) (ampdocSingle_priv self) input init of
          Fulfilled None \<Rightarrow>
            if isFormDataWrapper (body init) then map_option getFormData (body init)
            else body init
        | _ \<Rightarrow> body init)\<rparr>"
  by (simp add: fetch_priv_def unwrap_body_def Let_def split: outcome.splits option.splits)

theorem fetch_priv_changes_wrapped_body_only_witness:
  "fst (snd (fetch_priv (sample_collab (failing network_failure))
               (sample_client (sample_collab (failing network_failure)) None)
               tagged_data_url form_init))
     = form_init\<lparr>body := Some (NativeFormData [(''name'', ''value'')])\<rparr>
   \<and> fst (snd (fetch_priv (sample_collab (failing network_failure))
               (sample_client (sample_collab (failing network_failure)) None)
               tagged_data_url get_init))
     = get_init"
proof -
  let ?c = "sample_collab (failing network_failure)"
  let ?x = "sample_client ?c None"
  have h: "getViewerInterceptResponse ?c (win ?x) (ampdocSingle_priv ?x) tagged_data_url i
             = Fulfilled None" for i
    by (simp add: helper_defs sample_defs Let_def)
  have b: "body form_init = Some (FormDataWrapper [(''name'', ''value'')])"
    "body get_init = None"
    by (simp_all add: sample_defs)
  from fetch_priv_changes_wrapped_body_only [of ?c ?x tagged_data_url form_init]
    fetch_priv_changes_wrapped_body_only [of ?c ?x tagged_data_url get_init]
  show ?thesis
    by (simp add: h b)
qed

section \<open>Verification and errors\<close>

text \<open>
  C4. Whatever response \<^verbatim>\<open>fetch_\<close> resolves with, be it the interceptor's, the native
  transport's or the fallback transport's, \<^verbatim>\<open>fetchAmpCors_\<close> hands it to
  \<^verbatim>\<open>verifyAmpCORSHeaders\<close>, with the \<^verbatim>\<open>init\<close> object as \<^verbatim>\<open>fetch_\<close> left it, and
  resolves or rejects as the verification does. An intercepted response is verified
  like any other.
\<close>

theorem every_response_is_verified:
  assumes "setupInput c (win self) input0 (default_init opt_init) = Inr input"
    and "setupAMPCors c (win self) input (default_init opt_init) = Inr init1"
    and "fetch_priv c self input init1 = (Fulfilled r, init, calls)"
  shows "fetchAmpCors_priv c self input0 opt_init =
           (settle (verifyAmpCORSHeaders c (win self) r init), calls @ [CallVerify r init])
         \<and> list_ex is_verify_call (snd (fetchAmpCors_priv c self input0 opt_init))"
  using assms by (simp add: fetchAmpCors_priv_def Let_def)

theorem every_response_is_verified_witness:
  "fetchAmpCors_priv (intercepting_collab (bare_response 200) (failing network_failure))
     (sample_client (intercepting_collab (bare_response 200) (failing network_failure)) None)
     data_url (Some get_init)
   = (Rejected (Err CorsVerificationFailed ''missing source origin header''),
      [CallIntercept (Some (AmpDoc ''doc'')) tagged_data_url get_init,
       CallVerify (bare_response 200) get_init])
   \<and> fetchAmpCors_priv (sample_collab (failing network_failure))
     (sample_client (sample_collab (failing network_failure))
        (Some (responding (bare_response 200))))
     data_url (Some get_init)
   = (Rejected (Err CorsVerificationFailed ''missing source origin header''),
      [CallIntercept (Some (AmpDoc ''doc'')) tagged_data_url get_init,
       CallNativeFetch tagged_data_url get_init,
       CallVerify (bare_response 200) get_init])"
proof -
  let ?c = "intercepting_collab (bare_response 200) (failing network_failure)"
  let ?x = "sample_client ?c None"
  let ?c' = "sample_collab (failing network_failure)"
  let ?x' = "sample_client ?c' (Some (responding (bare_response 200)))"
  have a: "setupInput ?c (win ?x) data_url (default_init (Some get_init)) = Inr tagged_data_url"
    "setupInput ?c' (win ?x') data_url (default_init (Some get_init)) = Inr tagged_data_url"
    by (simp_all add: helper_defs sample_defs Let_def)
  have b: "setupAMPCors ?c (win ?x) tagged_data_url (default_init (Some get_init)) = Inr get_init"
    "setupAMPCors ?c' (win ?x') tagged_data_url (default_init (Some get_init)) = Inr get_init"
    by (simp_all add: helper_defs sample_defs Let_def)
  have r: "fetch_priv ?c ?x tagged_data_url get_init
             = (Fulfilled (bare_response 200), get_init,
                [CallIntercept (Some (AmpDoc ''doc'')) tagged_data_url get_init])"
    by (simp add: fetch_priv_def unwrap_body_def helper_defs sample_defs Let_def)
  have r': "fetch_priv ?c' ?x' tagged_data_url get_init
             = (Fulfilled (bare_response 200), get_init,
                [CallIntercept (Some (AmpDoc ''doc'')) tagged_data_url get_init,
                 CallNativeFetch tagged_data_url get_init])"
    by (simp add: fetch_priv_def unwrap_body_def helper_defs sample_defs Let_def)
  have v: "verifyAmpCORSHeaders ?c (win ?x) (bare_response 200) get_init
             = Thrown (Err CorsVerificationFailed ''missing source origin header'')"
    "verifyAmpCORSHeaders ?c' (win ?x') (bare_response 200) get_init
             = Thrown (Err CorsVerificationFailed ''missing source origin header'')"
    by (simp_all add: helper_defs sample_defs Let_def)
  from every_response_is_verified [OF a(1) b(1) r] every_response_is_verified [OF a(2) b(2) r']
  show ?thesis
    by (simp add: v)
qed

text \<open>
  C2, as the source has it. The claim that every failure reaches the caller wrapped
  into the expected \<^verbatim>\<open>'XHR'\<close> error fails for a response without the source origin
  header: \<^verbatim>\<open>fetch\<close> is rejected with the error of \<^verbatim>\<open>verifyAmpCORSHeaders\<close> itself,
  and \<^verbatim>\<open>createExpectedError\<close> is never called.
\<close>

theorem every_failure_is_wrapped_counterexample:
  "fst (fetch (sample_collab (failing network_failure))
          (sample_client (sample_collab (failing network_failure))
             (Some (responding (bare_response 200))))
          data_url None)
     = Rejected (Err CorsVerificationFailed ''missing source origin header'')
   \<and> filter is_wrap_call
        (snd (fetch (sample_collab (failing network_failure))
          (sample_client (sample_collab (failing network_failure))
             (Some (responding (bare_response 200))))
          data_url None)) = []"
  by (simp add: method_defs helper_defs sample_defs Let_def)

text \<open>
  C2, amended. A rejection of \<^verbatim>\<open>fetch_\<close> (of the interceptor or of the chosen
  transport) reaches the caller of \<^verbatim>\<open>fetch\<close> wrapped exactly once into the expected
  \<^verbatim>\<open>'XHR'\<close> error that carries the target origin and the underlying message. A failure
  of \<^verbatim>\<open>verifyAmpCORSHeaders\<close> and a failure of \<^verbatim>\<open>assertSuccess\<close> reach the caller
  as they were raised, without a call to \<^verbatim>\<open>createExpectedError\<close>.
\<close>

theorem dispatch_rejection_is_wrapped_once:
  assumes "setupInit c opt_init None = Inr init0"
    and "setupInput c (win self) input0 init0 = Inr input"
    and "setupAMPCors c (win self) input init0 = Inr init1"
    and "fetch_priv c self input init1 = (p, init, calls)"
  shows "(p = Rejected e \<longrightarrow>
            fst (fetch c self input0 opt_init) =
              Rejected (createExpectedError c ''XHR''
                (''Failed fetching ('' @ origin (parseUrlDeprecated c input) @ ''/...):'')
                (reason_and_message e))
            \<and> length (filter is_wrap_call (snd (fetch c self input0 opt_init))) = 1)
       \<and> (p = Fulfilled r \<and> settle (verifyAmpCORSHeaders c (win self) r init) = Rejected e \<longrightarrow>
            fst (fetch c self input0 opt_init) = Rejected e
            \<and> filter is_wrap_call (snd (fetch c self input0 opt_init)) = [])
       \<and> (p = Fulfilled r \<and> verifyAmpCORSHeaders c (win self) r init = Fulfilled r'
            \<and> settle (assertSuccess c r') = Rejected e \<longrightarrow>
            fst (fetch c self input0 opt_init) = Rejected e
            \<and> filter is_wrap_call (snd (fetch c self input0 opt_init)) = [])"
proof -
  have "filter is_wrap_call calls = []"
    using fetch_priv_no_wrap [of c self input init1] assms(4) by simp
  with assms show ?thesis
    by (simp add: fetch_def fetchAmpCors_priv_def default_init_def then_assertSuccess_def
        Let_def)
qed

theorem dispatch_rejection_is_wrapped_once_witness:
  "fst (fetch (sample_collab (failing network_failure))
          (sample_client (sample_collab (failing network_failure)) None) data_url None)
     = Rejected (Err (Expected ''XHR'')
         ''Failed fetching (https://example.com/...): Network failure'')
   \<and> length (filter is_wrap_call
        (snd (fetch (sample_collab (failing network_failure))
          (sample_client (sample_collab (failing network_failure)) None) data_url None))) = 1
   \<and> fst (fetch (sample_collab (failing network_failure))
          (sample_client (sample_collab (failing network_failure))
             (Some (responding (bare_response 200))))
          data_url None)
     = Rejected (Err CorsVerificationFailed ''missing source origin header'')
   \<and> fst (fetch (sample_collab (failing network_failure))
          (sample_client (sample_collab (failing network_failure))
             (Some (responding (allowed_response 404))))
          data_url None)
     = Rejected (Err (HttpError (allowed_response 404)) ''HTTP error'')"
proof -
  let ?c = "sample_collab (failing network_failure)"
  let ?xa = "sample_client ?c None"
  let ?xb = "sample_client ?c (Some (responding (bare_response 200)))"
  let ?xc = "sample_client ?c (Some (responding (allowed_response 404)))"
  let ?asked = "CallIntercept (Some (AmpDoc ''doc'')) tagged_data_url get_init"
  have i: "setupInit ?c None None = Inr get_init"
    by (simp add: helper_defs sample_defs Let_def)
  have t: "setupInput ?c (win (sample_client ?c n)) data_url get_init = Inr tagged_data_url" for n
    by (simp add: helper_defs sample_defs Let_def)
  have s: "setupAMPCors ?c (win (sample_client ?c n)) tagged_data_url get_init = Inr get_init"
    for n
    by (simp add: helper_defs sample_defs Let_def)
  have ra: "fetch_priv ?c ?xa tagged_data_url get_init
              = (Rejected network_failure, get_init,
                 [?asked, CallFetchPolyfill tagged_data_url get_init])"
    by (simp add: fetch_priv_def unwrap_body_def helper_defs sample_defs Let_def)
  have rb: "fetch_priv ?c ?xb tagged_data_url get_init
              = (Fulfilled (bare_response 200), get_init,
                 [?asked, CallNativeFetch tagged_data_url get_init])"
    by (simp add: fetch_priv_def unwrap_body_def helper_defs sample_defs Let_def)
  have rc: "fetch_priv ?c ?xc tagged_data_url get_init
              = (Fulfilled (allowed_response 404), get_init,
                 [?asked, CallNativeFetch tagged_data_url get_init])"
    by (simp add: fetch_priv_def unwrap_body_def helper_defs sample_defs Let_def)
  have o: "origin (parseUrlDeprecated ?c tagged_data_url) = ''https://example.com''"
    by (simp add: helper_defs sample_defs Let_def)
  have w: "createExpectedError ?c = spec_createExpectedError"
    by (simp add: helper_defs sample_defs)
  have m: "reason_and_message network_failure = Some ''Network failure''"
    by (simp add: network_failure_def)
  have vb: "settle (verifyAmpCORSHeaders ?c (win ?xb) (bare_response 200) get_init)
              = Rejected (Err CorsVerificationFailed ''missing source origin header'')"
    by (simp add: helper_defs sample_defs Let_def)
  have vc: "verifyAmpCORSHeaders ?c (win ?xc) (allowed_response 404) get_init
              = Fulfilled (allowed_response 404)"
    by (simp add: helper_defs sample_defs Let_def)
  have sc: "settle (assertSuccess ?c (allowed_response 404))
              = Rejected (Err (HttpError (allowed_response 404)) ''HTTP error'')"
    by (simp add: helper_defs sample_defs Let_def)
  from dispatch_rejection_is_wrapped_once [OF i t s ra, where e = network_failure]
    dispatch_rejection_is_wrapped_once [OF i t s rb,
      where r = "bare_response 200"
        and e = "Err CorsVerificationFailed ''missing source origin header''"]
    dispatch_rejection_is_wrapped_once [OF i t s rc,
      where r = "allowed_response 404" and r' = "allowed_response 404"
        and e = "Err (HttpError (allowed_response 404)) ''HTTP error''"]
  show ?thesis
    by (simp add: o w m spec_createExpectedError_def vb vc sc)
qed




text \<open>
  C1, evaluated where the source departs from it. \<^verbatim>\<open>fetchJson\<close> is called with
  \<^verbatim>\<open>opt_allowFailure = true\<close> and the transport answers with status 500. With a valid
  source origin header the call is rejected with the HTTP error of \<^verbatim>\<open>assertSuccess\<close>:
  the method hands the request to \<^verbatim>\<open>fetch\<close> and never reads its third parameter,
  which its documentation describes as ``Allows non-2XX status codes to fulfill''.
  Without the header the call is rejected with the error of the origin check.
\<close>

theorem fetchJson_allowFailure_still_asserts_success:
  "fst (fetchJson (sample_collab (failing network_failure))
          (sample_client (sample_collab (failing network_failure))
             (Some (responding (allowed_response 500))))
          data_url None (Some True))
     = Rejected (Err (HttpError (allowed_response 500)) ''HTTP error'')
   \<and> fst (fetchJson (sample_collab (failing network_failure))
          (sample_client (sample_collab (failing network_failure))
             (Some (responding (bare_response 500))))
          data_url None (Some True))
     = Rejected (Err CorsVerificationFailed ''missing source origin header'')"
  by (simp add: method_defs helper_defs sample_defs Let_def)

section \<open>The document of the client\<close>

text \<open>
  C7. The constructor asks the document service \<^verbatim>\<open>isSingleDoc()\<close> exactly once and
  stores in \<^verbatim>\<open>ampdocSingle_\<close> the document when the answer is yes and \<^verbatim>\<open>null\<close> when
  it is no. No method asks the document service again or consults the interception
  collaborator with anything but the stored value: \<^verbatim>\<open>fetch_\<close> starts with that call,
  and it is the only kind of interception call in \<^verbatim>\<open>fetch\<close>, \<^verbatim>\<open>fetchJson\<close>,
  \<^verbatim>\<open>fetchText\<close> and \<^verbatim>\<open>sendSignal\<close>. So every request of a client built where the
  environment is not a single document consults the collaborator with the \<^verbatim>\<open>null\<close>
  document, and with \<^verbatim>\<open>getViewerInterceptResponse\<close> as the specification has it, no
  such request is intercepted, whatever the viewer would answer: \<^verbatim>\<open>fetch_\<close> goes on
  to the transport.
\<close>

theorem client_document_is_fixed_at_construction:
  "Xhr c w =
     (if isSingleDoc (ampdocServiceFor c w)
      then (\<lparr>win = w, ampdocSingle_priv = Some (getAmpDoc (ampdocServiceFor c w))\<rparr>,
            [CallIsSingleDoc, CallGetAmpDoc])
      else (\<lparr>win = w, ampdocSingle_priv = None\<rparr>, [CallIsSingleDoc]))
   \<and> count_list (snd (Xhr c w)) CallIsSingleDoc = 1
   \<and> hd (snd (snd (fetch_priv c (fst (Xhr c w)) input init)))
       = CallIntercept
           (if isSingleDoc (ampdocServiceFor c w)
            then Some (getAmpDoc (ampdocServiceFor c w)) else None)
           input init
   \<and> list_all (consults_only (ampdocSingle_priv (fst (Xhr c w))))
        (snd (snd (fetch_priv c (fst (Xhr c w)) input init)))
   \<and> list_all (consults_only (ampdocSingle_priv (fst (Xhr c w))))
        (snd (fetch c (fst (Xhr c w)) input opt_init))
   \<and> list_all (consults_only (ampdocSingle_priv (fst (Xhr c w))))
        (snd (fetchJson c (fst (Xhr c w)) input opt_init a))
   \<and> list_all (consults_only (ampdocSingle_priv (fst (Xhr c w))))
        (snd (fetchText c (fst (Xhr c w)) input opt_init))
   \<and> list_all (consults_only (ampdocSingle_priv (fst (Xhr c w))))
        (snd (sendSignal c (fst (Xhr c w)) input opt_init))
   \<and> (\<not> isSingleDoc (ampdocServiceFor c w) \<longrightarrow>
         ampdocSingle_priv (fst (Xhr c w)) = None
         \<and> hd (snd (snd (fetch_priv c (fst (Xhr c w)) input init)))
             = CallIntercept None input init
         \<and> list_all (consults_only None) (snd (fetch c (fst (Xhr c w)) input opt_init))
         \<and> list_all (consults_only None) (snd (fetchJson c (fst (Xhr c w)) input opt_init a))
         \<and> list_all (consults_only None) (snd (fetchText c (fst (Xhr c w)) input opt_init))
         \<and> list_all (consults_only None) (snd (sendSignal c (fst (Xhr c w)) input opt_init)))
   \<and> (\<not> isSingleDoc (ampdocServiceFor c w)
       \<and> getViewerInterceptResponse c = spec_getViewerInterceptResponse viewer \<longrightarrow>
         fetch_priv c (fst (Xhr c w)) input init =
           (if responseType init = Some ''document''
            then (settle (fetchPolyfill c input (unwrap_body init)), unwrap_body init,
                  [CallIntercept None input init, CallFetchPolyfill input (unwrap_body init)])
            else
              (case native_fetch w of
                 Some native \<Rightarrow>
                   (settle (native input (unwrap_body init)), unwrap_body init,
                    [CallIntercept None input init, CallNativeFetch input (unwrap_body init)])
               | None \<Rightarrow>
                   (settle (fetchPolyfill c input (unwrap_body init)), unwrap_body init,
                    [CallIntercept None input init,
                     CallFetchPolyfill input (unwrap_body init)]))))"
proof -
  let ?self = "fst (Xhr c w)"
  let ?doc = "if isSingleDoc (ampdocServiceFor c w)
              then Some (getAmpDoc (ampdocServiceFor c w)) else None"
  have built: "Xhr c w =
     (if isSingleDoc (ampdocServiceFor c w)
      then (\<lparr>win = w, ampdocSingle_priv = Some (getAmpDoc (ampdocServiceFor c w))\<rparr>,
            [CallIsSingleDoc, CallGetAmpDoc])
      else (\<lparr>win = w, ampdocSingle_priv = None\<rparr>, [CallIsSingleDoc]))"
    by (simp add: Xhr_def Let_def)
  have once: "count_list (snd (Xhr c w)) CallIsSingleDoc = 1"
    by (simp add: Xhr_def Let_def)
  have doc: "ampdocSingle_priv ?self = ?doc" and window: "win ?self = w"
    by (simp_all add: Xhr_def Let_def)
  have first: "hd (snd (snd (fetch_priv c ?self input init))) = CallIntercept ?doc input init"
    unfolding fetch_priv_def doc by (simp add: Let_def split: outcome.splits option.splits)
  have skip: "fetch_priv c ?self input init =
           (if responseType init = Some ''document''
            then (settle (fetchPolyfill c input (unwrap_body init)), unwrap_body init,
                  [CallIntercept None input init, CallFetchPolyfill input (unwrap_body init)])
            else
              (case native_fetch w of
                 Some native \<Rightarrow>
                   (settle (native input (unwrap_body init)), unwrap_body init,
                    [CallIntercept None input init, CallNativeFetch input (unwrap_body init)])
               | None \<Rightarrow>
                   (settle (fetchPolyfill c input (unwrap_body init)), unwrap_body init,
                    [CallIntercept None input init,
                     CallFetchPolyfill input (unwrap_body init)])))"
    if "\<not> isSingleDoc (ampdocServiceFor c w)"
      and "getViewerInterceptResponse c = spec_getViewerInterceptResponse viewer"
  proof -
    from that(1) have none: "ampdocSingle_priv ?self = None"
      by (simp add: doc)
    from that(2) have "getViewerInterceptResponse c (win ?self) None input init = Fulfilled None"
      by (simp add: spec_getViewerInterceptResponse_def)
    then show ?thesis
      unfolding fetch_priv_def none window
      by (simp add: Let_def responseType_unwrap_body split: option.splits)
  qed
  note traces =
    fetch_priv_calls [of ?self c input init]
    fetch_calls [of ?self c input opt_init]
    fetchJson_calls [of ?self c input opt_init a]
    fetchText_calls [of ?self c input opt_init]
    sendSignal_calls [of ?self c input opt_init]
  have part1: "list_all (consults_only (ampdocSingle_priv ?self))
        (snd (snd (fetch_priv c ?self input init)))
   \<and> list_all (consults_only (ampdocSingle_priv ?self)) (snd (fetch c ?self input opt_init))
   \<and> list_all (consults_only (ampdocSingle_priv ?self))
        (snd (fetchJson c ?self input opt_init a))
   \<and> list_all (consults_only (ampdocSingle_priv ?self))
        (snd (fetchText c ?self input opt_init))
   \<and> list_all (consults_only (ampdocSingle_priv ?self))
        (snd (sendSignal c ?self input opt_init))"
    using traces by blast
  have part2: "ampdocSingle_priv ?self = None
         \<and> hd (snd (snd (fetch_priv c ?self input init))) = CallIntercept None input init
         \<and> list_all (consults_only None) (snd (fetch c ?self input opt_init))
         \<and> list_all (consults_only None) (snd (fetchJson c ?self input opt_init a))
         \<and> list_all (consults_only None) (snd (fetchText c ?self input opt_init))
         \<and> list_all (consults_only None) (snd (sendSignal c ?self input opt_init))"
    if "\<not> isSingleDoc (ampdocServiceFor c w)"
  proof -
    from that have none: "ampdocSingle_priv ?self = None"
      by (simp add: doc)
    from first that have "hd (snd (snd (fetch_priv c ?self input init)))
                            = CallIntercept None input init"
      by simp
    with none traces show ?thesis
      by simp
  qed
  from built once first part1 part2 skip show ?thesis
    by blast
qed

theorem client_document_is_fixed_at_construction_witness:
  "ampdocSingle_priv
     (fst (Xhr (intercepting_collab (bare_response 500) (responding (allowed_response 200)))
             (cache_window None))) = Some (AmpDoc ''doc'')
   \<and> hd (snd (snd (fetch_priv
        (intercepting_collab (bare_response 500) (responding (allowed_response 200)))
        (fst (Xhr (intercepting_collab (bare_response 500) (responding (allowed_response 200)))
                (cache_window None)))
        tagged_data_url get_init)))
      = CallIntercept (Some (AmpDoc ''doc'')) tagged_data_url get_init
   \<and> \<not> isSingleDoc (ampdocServiceFor
        (shadow_collab (bare_response 500) (responding (allowed_response 200)))
        (cache_window None))
   \<and> getViewerInterceptResponse
        (shadow_collab (bare_response 500) (responding (allowed_response 200)))
      = spec_getViewerInterceptResponse (answering_viewer (bare_response 500))
   \<and> ampdocSingle_priv
        (fst (Xhr (shadow_collab (bare_response 500) (responding (allowed_response 200)))
                (cache_window None))) = None
   \<and> fetch_priv (shadow_collab (bare_response 500) (responding (allowed_response 200)))
        (fst (Xhr (shadow_collab (bare_response 500) (responding (allowed_response 200)))
                (cache_window None)))
        tagged_data_url get_init
      = (Fulfilled (allowed_response 200), get_init,
         [CallIntercept None tagged_data_url get_init,
          CallFetchPolyfill tagged_data_url get_init])
   \<and> list_all (consults_only None)
        (snd (fetch (shadow_collab (bare_response 500) (responding (allowed_response 200)))
           (fst (Xhr (shadow_collab (bare_response 500) (responding (allowed_response 200)))
                   (cache_window None)))
           data_url None))"
proof -
  let ?cs = "intercepting_collab (bare_response 500) (responding (allowed_response 200))"
  let ?cn = "shadow_collab (bare_response 500) (responding (allowed_response 200))"
  have single: "isSingleDoc (ampdocServiceFor ?cs (cache_window None))"
    "getAmpDoc (ampdocServiceFor ?cs (cache_window None)) = AmpDoc ''doc''"
    by (simp_all add: helper_defs sample_defs)
  have shadow: "\<not> isSingleDoc (ampdocServiceFor ?cn (cache_window None))"
    by (simp add: helper_defs sample_defs)
  have viewer: "getViewerInterceptResponse ?cn
                  = spec_getViewerInterceptResponse (answering_viewer (bare_response 500))"
    by (simp add: spec_collab_def shadow_collab_def)
  have request: "responseType get_init \<noteq> Some ''document''"
    "unwrap_body get_init = get_init"
    "native_fetch (cache_window None) = None"
    "fetchPolyfill ?cn tagged_data_url get_init = Fulfilled (allowed_response 200)"
    by (simp_all add: unwrap_body_def helper_defs sample_defs)
  note S = client_document_is_fixed_at_construction
         [where c = ?cs and w = "cache_window None" and input = tagged_data_url
            and init = get_init and opt_init = None and a = None and viewer = silent_viewer]
  note N = client_document_is_fixed_at_construction
         [where c = ?cn and w = "cache_window None" and input = tagged_data_url
            and init = get_init and opt_init = None and a = None
            and viewer = "answering_viewer (bare_response 500)"]
  note N' = client_document_is_fixed_at_construction
         [where c = ?cn and w = "cache_window None" and input = data_url
            and init = get_init and opt_init = None and a = None
            and viewer = "answering_viewer (bare_response 500)"]
  from S [THEN conjunct1] single
  have s1: "ampdocSingle_priv (fst (Xhr ?cs (cache_window None))) = Some (AmpDoc ''doc'')"
    by simp
  from S [THEN conjunct2, THEN conjunct2, THEN conjunct1] single
  have s2: "hd (snd (snd (fetch_priv ?cs (fst (Xhr ?cs (cache_window None)))
                            tagged_data_url get_init)))
              = CallIntercept (Some (AmpDoc ''doc'')) tagged_data_url get_init"
    by simp
  from N shadow
  have n1: "ampdocSingle_priv (fst (Xhr ?cn (cache_window None))) = None"
    by blast
  from N shadow viewer
  have "fetch_priv ?cn (fst (Xhr ?cn (cache_window None))) tagged_data_url get_init =
           (if responseType get_init = Some ''document''
            then (settle (fetchPolyfill ?cn tagged_data_url (unwrap_body get_init)),
                  unwrap_body get_init,
                  [CallIntercept None tagged_data_url get_init,
                   CallFetchPolyfill tagged_data_url (unwrap_body get_init)])
            else
              (case native_fetch (cache_window None) of
                 Some native \<Rightarrow>
                   (settle (native tagged_data_url (unwrap_body get_init)),
                    unwrap_body get_init,
                    [CallIntercept None tagged_data_url get_init,
                     CallNativeFetch tagged_data_url (unwrap_body get_init)])
               | None \<Rightarrow>
                   (settle (fetchPolyfill ?cn tagged_data_url (unwrap_body get_init)),
                    unwrap_body get_init,
                    [CallIntercept None tagged_data_url get_init,
                     CallFetchPolyfill tagged_data_url (unwrap_body get_init)])))"
    by blast
  then have n2: "fetch_priv ?cn (fst (Xhr ?cn (cache_window None))) tagged_data_url get_init
      = (Fulfilled (allowed_response 200), get_init,
         [CallIntercept None tagged_data_url get_init,
          CallFetchPolyfill tagged_data_url get_init])"
    by (simp add: request)
  from N' shadow
  have n3: "list_all (consults_only None)
              (snd (fetch ?cn (fst (Xhr ?cn (cache_window None))) data_url None))"
    by blast
  from s1 s2 shadow viewer n1 n2 n3 show ?thesis
    by blast
qed

section \<open>fetch and sendSignal\<close>

text \<open>
  C10. For an \<^verbatim>\<open>init\<close> that \<^verbatim>\<open>setupInit\<close> returns as it is, \<^verbatim>\<open>fetch(input, init)\<close>
  and \<^verbatim>\<open>sendSignal(input, init)\<close> make the same calls in the same order and have the
  same outcome.
\<close>

theorem fetch_equals_sendSignal_on_normal_init:
  assumes "setupInit c (Some init) None = Inr init"
  shows "fetch c self input (Some init) = sendSignal c self input (Some init)"
  using assms by (simp add: fetch_def sendSignal_def)

theorem fetch_equals_sendSignal_on_normal_init_witness:
  "setupInit (sample_collab (failing network_failure)) (Some get_init) None = Inr get_init
   \<and> fetch (sample_collab (failing network_failure))
        (sample_client (sample_collab (failing network_failure))
           (Some (responding (allowed_response 200))))
        data_url (Some get_init)
     = sendSignal (sample_collab (failing network_failure))
        (sample_client (sample_collab (failing network_failure))
           (Some (responding (allowed_response 200))))
        data_url (Some get_init)
   \<and> fst (sendSignal (sample_collab (failing network_failure))
        (sample_client (sample_collab (failing network_failure))
           (Some (responding (allowed_response 200))))
        data_url (Some get_init))
     = Fulfilled (allowed_response 200)"
proof -
  let ?c = "sample_collab (failing network_failure)"
  let ?x = "sample_client ?c (Some (responding (allowed_response 200)))"
  have h: "setupInit ?c (Some get_init) None = Inr get_init"
    by (simp add: helper_defs sample_defs Let_def)
  have v: "fst (sendSignal ?c ?x data_url (Some get_init)) = Fulfilled (allowed_response 200)"
    by (simp add: method_defs helper_defs sample_defs Let_def)
  from fetch_equals_sendSignal_on_normal_init [OF h, of ?x data_url] h v show ?thesis
    by simp
qed

end
